theory Spec2Isabelle
  imports Complex_Main
begin

section \<open>Strings and numbers of the source language\<close>

text \<open>
  A JavaScript string is modelled as a \<^typ>\<open>string\<close>, one \<^typ>\<open>char\<close> per code unit
  (code units below 256), and \<open>s.length\<close> is \<^term>\<open>int (length s)\<close>. The integer
  arguments of the operations (chunk sizes, overlaps, bounds) are \<^typ>\<open>int\<close>.
\<close>

text \<open>
  \<open>String.prototype.slice(start, end)\<close>: a negative index counts from the end of the
  string, both indices are clamped to the string, and an empty range gives the empty string.
\<close>

definition slice :: "string \<Rightarrow> int \<Rightarrow> int \<Rightarrow> string" where
  "slice s start stop =
     (let len = int (length s);
          from = (if start < 0 then max (len + start) 0 else min start len);
          to = (if stop < 0 then max (len + stop) 0 else min stop len)
      in take (nat (to - from)) (drop (nat from) s))"

text \<open>
  The two errors of the specification, and the \<open>RangeError\<close> with which the engine
  refuses a call that is given more arguments than it accepts. The source contains no
  \<open>throw\<close> statement, so an operation fails only where the engine does.
\<close>

datatype error = InvalidConfigError | EmptyInputError | RangeError

section \<open>equalSizeChunk\<close>

text \<open>
  The \<open>while\<close> loop of \<open>equalSizeChunk\<close> (src/chunker.js, lines 122 to 128), with the
  array \<open>chunks\<close> and the variable \<open>start\<close> as loop state. The loop may run forever, so
  it is a partial function: \<^term>\<open>None\<close> is the run that never returns (such a run
  pushes onto \<open>chunks\<close> until memory is exhausted, and no array reaches the caller).
\<close>

partial_function (option) equalSizeChunk_loop ::
  "string \<Rightarrow> int \<Rightarrow> int \<Rightarrow> string list \<Rightarrow> int \<Rightarrow> string list option" where
  "equalSizeChunk_loop text chunkSize overlap chunks start =
     (if start < int (length text) then
        (let stop = min (start + chunkSize) (int (length text));
             chunks' = chunks @ [slice text start stop];
             start' = stop - overlap
         in if start' \<ge> int (length text) then Some chunks'
            else equalSizeChunk_loop text chunkSize overlap chunks' start')
      else Some chunks)"

definition equalSizeChunk :: "string \<Rightarrow> int \<Rightarrow> int \<Rightarrow> (error + string list) option" where
  "equalSizeChunk text chunkSize overlap =
     map_option Inr (equalSizeChunk_loop text chunkSize overlap [] 0)"

section \<open>The facade and its defaults\<close>

text \<open>
  An options object: a field that the caller leaves out is \<open>undefined\<close>, here
  \<^term>\<open>None\<close>. The default parameter \<open>options = {}\<close> is \<open>no_options\<close>.
\<close>

record options =
  chunkSize :: "int option"
  chunkOverlap :: "int option"
  separators :: "string list option"

definition no_options :: options where
  "no_options = \<lparr>chunkSize = None, chunkOverlap = None, separators = None\<rparr>"

text \<open>
  \<open>a || b\<close>: the value of \<open>a\<close> when it is truthy, otherwise \<open>b\<close>. Of the numbers,
  \<open>0\<close> is falsy, as \<open>undefined\<close> is; every array is truthy.
\<close>

definition or_number :: "int option \<Rightarrow> int \<Rightarrow> int" where
  "or_number a b = (case a of None \<Rightarrow> b | Some v \<Rightarrow> if v = 0 then b else v)"

definition or_array :: "'a list option \<Rightarrow> 'a list \<Rightarrow> 'a list" where
  "or_array a b = (case a of None \<Rightarrow> b | Some v \<Rightarrow> v)"

record chunker =
  defaultChunkSize :: int
  defaultChunkOverlap :: int
  defaultSeparators :: "string list"

text \<open>The constructor (src/chunker.js, lines 7 to 11).\<close>

definition Chunker :: "options \<Rightarrow> chunker" where
  "Chunker opts =
     \<lparr>defaultChunkSize = or_number (chunkSize opts) 1000,
      defaultChunkOverlap = or_number (chunkOverlap opts) 200,
      defaultSeparators =
        or_array (separators opts) [[CHR 0x0A, CHR 0x0A], [CHR 0x0A], '' '', '''']\<rparr>"

text \<open>
  \<open>recursiveCharacterChunk\<close> (lines 19 to 27) builds this configuration and hands it to
  the external splitter; the configuration is the part that belongs to this repository.
\<close>

record splitter_config =
  cfg_chunkSize :: int
  cfg_chunkOverlap :: int
  cfg_separators :: "string list"

definition recursiveCharacterChunk_config :: "chunker \<Rightarrow> options \<Rightarrow> splitter_config" where
  "recursiveCharacterChunk_config this opts =
     \<lparr>cfg_chunkSize = or_number (chunkSize opts) (defaultChunkSize this),
      cfg_chunkOverlap = or_number (chunkOverlap opts) (defaultChunkOverlap this),
      cfg_separators = or_array (separators opts) (defaultSeparators this)\<rparr>"

section \<open>sentenceChunk\<close>

text \<open>
  The characters matched by \<open>\s\<close> and removed by \<open>trim\<close>, among the code units
  below 256: tab, line feed, vertical tab, form feed, carriage return, space and
  no-break space.
\<close>

definition is_whitespace :: "char \<Rightarrow> bool" where
  "is_whitespace c =
     (c \<in> set [CHR 0x09, CHR 0x0A, CHR 0x0B, CHR 0x0C, CHR 0x0D, CHR 0x20, CHR 0xA0])"

definition is_terminal :: "char \<Rightarrow> bool" where
  "is_terminal c = (c \<in> set [CHR ''.'', CHR ''!'', CHR ''?''])"

text \<open>
  \<open>text.split(/(?<=[.!?])\s+/)\<close>: the text is cut at every maximal run of whitespace
  that follows one of \<open>.\<close>, \<open>!\<close>, \<open>?\<close>, and the run is dropped. The first argument is
  the piece read so far. A text without such a run, the empty text too, is one piece.
\<close>

function split_from :: "string \<Rightarrow> string \<Rightarrow> string list" where
  "split_from piece [] = [piece]"
| "split_from piece (c # cs) =
     (if is_terminal c \<and> (case cs of [] \<Rightarrow> False | d # _ \<Rightarrow> is_whitespace d)
      then (piece @ [c]) # split_from [] (dropWhile is_whitespace cs)
      else split_from (piece @ [c]) cs)"
  by pat_completeness auto
termination
  by (relation "measure (\<lambda>(piece, rest). length rest)")
     (auto simp: less_Suc_eq_le length_dropWhile_le)

definition split_sentences :: "string \<Rightarrow> string list" where
  "split_sentences text = split_from [] text"

definition trim :: "string \<Rightarrow> string" where
  "trim s = rev (dropWhile is_whitespace (rev (dropWhile is_whitespace s)))"

text \<open>
  The body of the \<open>for\<close> loop of \<open>sentenceChunk\<close> (lines 144 to 151) on the state
  \<open>(chunks, currentChunk)\<close>; \<open>limit\<close> is \<open>options.chunkSize || this.defaultChunkSize\<close>.
  A non-empty string is truthy.
\<close>

definition sentenceChunk_step ::
  "int \<Rightarrow> string \<Rightarrow> string list \<times> string \<Rightarrow> string list \<times> string" where
  "sentenceChunk_step limit sentence st =
     (case st of (chunks, currentChunk) \<Rightarrow>
        if int (length (currentChunk @ sentence)) \<le> limit
        then (chunks, currentChunk @ (if currentChunk \<noteq> [] then '' '' else '''') @ sentence)
        else (if currentChunk \<noteq> [] then chunks @ [trim currentChunk] else chunks, sentence))"

definition sentenceChunk :: "chunker \<Rightarrow> string \<Rightarrow> options \<Rightarrow> error + string list" where
  "sentenceChunk this text opts =
     (let sentences = split_sentences text;
          limit = or_number (chunkSize opts) (defaultChunkSize this)
      in case fold (sentenceChunk_step limit) sentences ([], []) of
           (chunks, currentChunk) \<Rightarrow>
             Inr (if currentChunk \<noteq> [] then chunks @ [trim currentChunk] else chunks))"

section \<open>getChunkStats\<close>

text \<open>
  The numbers of a statistics record: an integer, or one of the three values that
  \<open>0 / 0\<close>, \<open>Math.min()\<close> and \<open>Math.max()\<close> produce.
\<close>

datatype jsnum = Fin int | NaN | PosInfinity | NegInfinity


text \<open>
  \<open>Math.round(a / b)\<close> for integers \<open>a\<close> and \<open>b\<close>: \<open>Math.round\<close> gives the integer
  nearest to its argument and rounds a half up, so for \<open>b \<noteq> 0\<close> the result is the floor
  of \<open>a / b + 1 / 2\<close>. The quotient is taken exactly (a double holds it closely enough
  while \<open>a\<close> is below \<open>2 ^ 52\<close>). Division by zero gives \<open>NaN\<close> or an infinity, and
  \<open>Math.round\<close> keeps these.
\<close>

definition round_quotient :: "int \<Rightarrow> int \<Rightarrow> jsnum" where
  "round_quotient a b =
     (if b = 0 then (if a = 0 then NaN else if 0 < a then PosInfinity else NegInfinity)
      else Fin ((2 * a + b) div (2 * b)))"

text \<open>
  \<open>Math.min(...xs)\<close> and \<open>Math.max(...xs)\<close>: the spread passes every element of the
  array as one argument of the call. An engine accepts only so many arguments and raises a
  \<open>RangeError\<close> beyond them; how many is left to the engine, so the bound is the
  parameter \<open>maxArguments\<close>. Without arguments the two functions return the infinities.
\<close>

definition Math_min :: "nat \<Rightarrow> int list \<Rightarrow> error + jsnum" where
  "Math_min maxArguments xs =
     (if maxArguments < length xs then Inl RangeError
      else Inr (case xs of [] \<Rightarrow> PosInfinity | x # ys \<Rightarrow> Fin (fold min ys x)))"

definition Math_max :: "nat \<Rightarrow> int list \<Rightarrow> error + jsnum" where
  "Math_max maxArguments xs =
     (if maxArguments < length xs then Inl RangeError
      else Inr (case xs of [] \<Rightarrow> NegInfinity | x # ys \<Rightarrow> Fin (fold max ys x)))"

record statistics =
  totalChunks :: int
  totalCharacters :: int
  averageChunkSize :: jsnum
  minChunkSize :: jsnum
  maxChunkSize :: jsnum
  chunkSizes :: "int list"

text \<open>
  \<open>getChunkStats\<close> (lines 162 to 174); \<open>reduce\<close> is a left fold from \<open>0\<close>. The fields
  of the record are computed in the order in which they are written, and an error of
  \<open>Math.min\<close> or \<open>Math.max\<close> ends the call.
\<close>

definition getChunkStats :: "nat \<Rightarrow> string list \<Rightarrow> error + statistics" where
  "getChunkStats maxArguments chunks =
     (let lengths = map (\<lambda>chunk. int (length chunk)) chunks;
          totalLength = fold (\<lambda>len sum. sum + len) lengths 0
      in case Math_min maxArguments lengths of
           Inl e \<Rightarrow> Inl e
         | Inr smallest \<Rightarrow>
            (case Math_max maxArguments lengths of
               Inl e \<Rightarrow> Inl e
             | Inr largest \<Rightarrow>
                 Inr \<lparr>totalChunks = int (length chunks),
                      totalCharacters = totalLength,
                      averageChunkSize = round_quotient totalLength (int (length chunks)),
                      minChunkSize = smallest,
                      maxChunkSize = largest,
                      chunkSizes = lengths\<rparr>))"

section \<open>validateChunks\<close>

record validation =
  isValid :: bool
  totalChunks :: int
  validChunks :: int
  oversizedChunks :: int
  oversizedIndices :: "int list"

text \<open>
  \<open>validateChunks\<close> (lines 182 to 195). \<open>map\<close> with a two-argument callback passes
  each element together with its index, counted from \<open>0\<close>.
\<close>

definition validateChunks :: "string list \<Rightarrow> int \<Rightarrow> error + validation" where
  "validateChunks chunks maxSize =
     (let oversized = filter (\<lambda>chunk. int (length chunk) > maxSize) chunks;
          valid = filter (\<lambda>chunk. int (length chunk) \<le> maxSize) chunks
      in Inr \<lparr>isValid = (length oversized = 0),
              totalChunks = int (length chunks),
              validChunks = int (length valid),
              oversizedChunks = int (length oversized),
              oversizedIndices =
                filter (\<lambda>index. index \<noteq> - 1)
                  (map (\<lambda>(index, chunk). if int (length chunk) > maxSize then int index else - 1)
                     (enumerate 0 chunks))\<rparr>)"

section \<open>validateChunks on a store of arrays\<close>

text \<open>
  To say that a call leaves its argument alone, arrays live in a store and are passed by
  reference. A reference is a position in the store; \<open>filter\<close> and \<open>map\<close> read the
  array they are called on and put their result into a new array.
\<close>

datatype jsval = Str string | Num int

type_synonym store = "jsval list list"

definition array_at :: "store \<Rightarrow> nat \<Rightarrow> jsval list" where
  "array_at h a = (if a < length h then h ! a else [])"

definition alloc :: "store \<Rightarrow> jsval list \<Rightarrow> nat \<times> store" where
  "alloc h xs = (length h, h @ [xs])"

definition Array_filter :: "(jsval \<Rightarrow> bool) \<Rightarrow> nat \<Rightarrow> store \<Rightarrow> nat \<times> store" where
  "Array_filter p a h = alloc h (filter p (array_at h a))"

definition Array_map :: "(jsval \<Rightarrow> nat \<Rightarrow> jsval) \<Rightarrow> nat \<Rightarrow> store \<Rightarrow> nat \<times> store" where
  "Array_map f a h = alloc h (map (\<lambda>(index, x). f x index) (enumerate 0 (array_at h a)))"

text \<open>
  \<open>chunk.length > maxSize\<close> and \<open>chunk.length <= maxSize\<close>: a number has no
  \<open>length\<close>, and \<open>undefined\<close> compares false with every number.
\<close>

definition length_gt :: "jsval \<Rightarrow> int \<Rightarrow> bool" where
  "length_gt v m = (case v of Str s \<Rightarrow> int (length s) > m | Num _ \<Rightarrow> False)"

definition length_le :: "jsval \<Rightarrow> int \<Rightarrow> bool" where
  "length_le v m = (case v of Str s \<Rightarrow> int (length s) \<le> m | Num _ \<Rightarrow> False)"

definition numbers :: "jsval list \<Rightarrow> int list" where
  "numbers vs = concat (map (\<lambda>v. case v of Num n \<Rightarrow> [n] | Str _ \<Rightarrow> []) vs)"

text \<open>
  \<open>validateChunks\<close> (lines 182 to 195) again, the array \<open>chunks\<close> given by reference;
  the result is the record, its index array read out of the store, and the store after
  the call.
\<close>

definition validateChunks_store :: "store \<Rightarrow> nat \<Rightarrow> int \<Rightarrow> (error + validation) \<times> store" where
  "validateChunks_store h chunks maxSize =
     (case Array_filter (\<lambda>chunk. length_gt chunk maxSize) chunks h of (oversized, h1) \<Rightarrow>
      case Array_filter (\<lambda>chunk. length_le chunk maxSize) chunks h1 of (valid, h2) \<Rightarrow>
      case Array_map (\<lambda>chunk index. if length_gt chunk maxSize then Num (int index) else Num (- 1))
             chunks h2 of (mapped, h3) \<Rightarrow>
      case Array_filter (\<lambda>index. index \<noteq> Num (- 1)) mapped h3 of (indices, h4) \<Rightarrow>
        (Inr \<lparr>isValid = (length (array_at h2 oversized) = 0),
              totalChunks = int (length (array_at h2 chunks)),
              validChunks = int (length (array_at h2 valid)),
              oversizedChunks = int (length (array_at h2 oversized)),
              oversizedIndices = numbers (array_at h4 indices)\<rparr>,
         h4))"

section \<open>equalSizeChunk: when the loop returns\<close>

text \<open>
  Whenever the loop is entered with a positive overlap, or with overlap \<open>0\<close> and a chunk
  size that is not positive, the next \<open>start\<close> is again below the length of the text: the
  window end is clamped to the length before the overlap is subtracted. So a run that
  returns never entered the loop.
\<close>

lemma equalSizeChunk_loop_Some_exit:
  assumes "equalSizeChunk_loop text csize overlap chunks start = Some r"
  shows "0 < overlap \<or> overlap = 0 \<and> csize \<le> 0 \<longrightarrow> \<not> start < int (length text)"
  using assms
proof (rule equalSizeChunk_loop.raw_induct [rotated,
      where P = "\<lambda>t cs ov _ st _. 0 < ov \<or> ov = 0 \<and> cs \<le> 0 \<longrightarrow> \<not> st < int (length t)"],
    goal_cases)
  case (1 loop t cs ov chunks st r)
  show ?case
  proof (intro impI notI)
    assume stuck: "0 < ov \<or> ov = 0 \<and> cs \<le> 0" and lt: "st < int (length t)"
    let ?stop = "min (st + cs) (int (length t))"
    have next_lt: "?stop - ov < int (length t)"
      using stuck lt by auto
    from "1"(2) lt next_lt
    have "loop t cs ov (chunks @ [slice t st ?stop]) (?stop - ov) = Some r"
      by (simp add: Let_def)
    from "1"(1) [OF this] stuck next_lt show False by simp
  qed
qed

lemma equalSizeChunk_loop_diverges:
  assumes "0 < overlap \<or> overlap = 0 \<and> csize \<le> 0" and "start < int (length text)"
  shows "equalSizeChunk_loop text csize overlap chunks start = None"
proof (cases "equalSizeChunk_loop text csize overlap chunks start")
  case None
  then show ?thesis .
next
  case (Some r)
  from equalSizeChunk_loop_Some_exit [OF this] assms show ?thesis by simp
qed

text \<open>With a positive chunk size and no positive overlap, \<open>start\<close> grows and the loop returns.\<close>

lemma equalSizeChunk_loop_returns:
  assumes "0 < csize" and "overlap \<le> 0"
  shows "\<exists>r. equalSizeChunk_loop text csize overlap chunks start = Some r"
proof (induction "nat (int (length text) - start)" arbitrary: chunks start rule: less_induct)
  case less
  show ?case
  proof (cases "start < int (length text)")
    case False
    then show ?thesis by (subst equalSizeChunk_loop.simps) simp
  next
    case True
    let ?stop = "min (start + csize) (int (length text))"
    show ?thesis
    proof (cases "int (length text) \<le> ?stop - overlap")
      case True
      with \<open>start < int (length text)\<close> show ?thesis
        by (subst equalSizeChunk_loop.simps) (simp add: Let_def)
    next
      case False
      have "nat (int (length text) - (?stop - overlap)) < nat (int (length text) - start)"
        using assms True by (simp add: min_def)
      from less [OF this, of "chunks @ [slice text start ?stop]"]
      obtain r where "equalSizeChunk_loop text csize overlap
          (chunks @ [slice text start ?stop]) (?stop - overlap) = Some r" by blast
      with True False show ?thesis
        by (subst equalSizeChunk_loop.simps) (simp add: Let_def)
    qed
  qed
qed

text \<open>
  With a positive chunk size and no positive overlap the loop returns the windows that
  start at \<open>s\<close>, \<open>s + (chunkSize - overlap)\<close>, and so on below the length of the text.
\<close>

lemma slice_window:
  assumes "s < length t" and "0 < csize"
  shows "slice t (int s) (min (int s + csize) (int (length t))) = take (nat csize) (drop s t)"
proof (cases "int s + csize \<le> int (length t)")
  case True
  then show ?thesis using assms by (simp add: slice_def Let_def min_def)
next
  case False
  then have "length t - s \<le> nat csize" by linarith
  with False assms show ?thesis by (simp add: slice_def Let_def min_def)
qed

lemma window_count_step:
  assumes "0 < (st::nat)" and "st < n"
  shows "(n + st - 1) div st = Suc ((n - st + st - 1) div st)"
proof -
  have a: "n + st - 1 = (n - 1) + st" and b: "n - st + st - 1 = n - 1"
    using assms by simp_all
  show ?thesis unfolding a b using assms(1) by simp
qed

lemma equalSizeChunk_loop_windows:
  assumes "0 < csize" and "overlap \<le> 0"
  shows "equalSizeChunk_loop t csize overlap chunks (int s) =
    Some (chunks @ map (\<lambda>i. take (nat csize) (drop (s + i * nat (csize - overlap)) t))
            [0..<(length t - s + nat (csize - overlap) - 1) div nat (csize - overlap)])"
proof (induction "length t - s" arbitrary: chunks s rule: less_induct)
  case less
  let ?step = "nat (csize - overlap)"
  let ?w = "\<lambda>s i. take (nat csize) (drop (s + i * ?step) t)"
  let ?k = "\<lambda>s. (length t - s + ?step - 1) div ?step"
  have step: "0 < ?step" "nat csize \<le> ?step" "int ?step = csize - overlap"
    using assms by simp_all
  show ?case
  proof (cases "s < length t")
    case False
    then have "?k s = 0" using step by simp
    with False show ?thesis by (subst equalSizeChunk_loop.simps) simp
  next
    case True
    let ?stop = "min (int s + csize) (int (length t))"
    have w0: "slice t (int s) ?stop = ?w s 0"
      using slice_window [OF True assms(1)] by simp
    show ?thesis
    proof (cases "int (length t) \<le> ?stop - overlap")
      case exit: True
      then have "length t - s \<le> ?step" using assms by (auto simp: min_def split: if_splits)
      with True have "length t - s + ?step - 1 = ?step + (length t - s - 1)"
        and "length t - s - 1 < ?step" by simp_all
      then have "?k s = 1"
        by (simp only: div_add_self1 [OF less_imp_neq [OF step(1), symmetric]] div_less)
      with True exit w0 show ?thesis
        by (subst equalSizeChunk_loop.simps) (simp add: Let_def)
    next
      case cont: False
      then have stop: "?stop = int s + csize" and lt: "s + ?step < length t"
        using assms by (auto simp: min_def split: if_splits)
      have next_start: "?stop - overlap = int (s + ?step)"
        using stop step(3) by simp
      have "length t - (s + ?step) < length t - s"
        using lt step(1) by simp
      from less [OF this, of "chunks @ [?w s 0]"]
      have IH: "equalSizeChunk_loop t csize overlap (chunks @ [?w s 0]) (int (s + ?step)) =
          Some ((chunks @ [?w s 0]) @ map (?w (s + ?step)) [0..<?k (s + ?step)])" .
      have k: "?k s = Suc (?k (s + ?step))"
      proof -
        have "?step < length t - s" using lt by simp
        moreover have "length t - (s + ?step) = length t - s - ?step" by simp
        ultimately show ?thesis
          using window_count_step [of ?step "length t - s"] step(1) by (simp only:)
      qed
      have "map (?w s) [0..<?k s] = ?w s 0 # map (?w (s + ?step)) [0..<?k (s + ?step)]"
        unfolding k by (simp add: upt_conv_Cons map_Suc_upt [symmetric] add.assoc del: upt_Suc)
      then have windows: "(chunks @ [?w s 0]) @ map (?w (s + ?step)) [0..<?k (s + ?step)]
          = chunks @ map (?w s) [0..<?k s]"
        by simp
      have c1: "int s < int (length t)" using True by simp
      have "equalSizeChunk_loop t csize overlap chunks (int s) =
          equalSizeChunk_loop t csize overlap (chunks @ [slice t (int s) ?stop]) (?stop - overlap)"
        by (subst equalSizeChunk_loop.simps) (simp only: Let_def c1 cont if_True if_False)
      also have "\<dots> = equalSizeChunk_loop t csize overlap (chunks @ [?w s 0]) (int (s + ?step))"
        by (simp only: w0 next_start)
      also note IH
      finally show ?thesis
        by (simp only: windows)
    qed
  qed
qed

lemma equalSizeChunk_zero_overlap_returns:
  "0 < csize \<Longrightarrow> \<exists>chunks. equalSizeChunk text csize 0 = Some (Inr chunks)"
  using equalSizeChunk_loop_returns [of csize 0 "text" "[]" 0]
  by (auto simp: equalSizeChunk_def)

text \<open>
  C1. The claim: for every text, every chunk size \<open>S > 0\<close> and every overlap \<open>O\<close> with
  \<open>0 \<le> O < S\<close>, \<open>equalSizeChunk\<close> returns. The code: for every non-empty text and every
  such configuration with \<open>O > 0\<close> the call never returns (it returns for \<open>O = 0\<close>, see
  \<open>equalSizeChunk_zero_overlap_returns\<close>).
\<close>

theorem equalSizeChunk_positive_overlap_never_returns:
  "text \<noteq> [] \<Longrightarrow> 0 < overlap \<Longrightarrow> overlap < csize \<Longrightarrow> equalSizeChunk text csize overlap = None"
  by (simp add: equalSizeChunk_def equalSizeChunk_loop_diverges)

theorem equalSizeChunk_positive_overlap_never_returns_witness:
  "''ab'' \<noteq> [] \<and> (0::int) < 1 \<and> (1::int) < 2 \<and> equalSizeChunk ''ab'' 2 1 = None"
  using equalSizeChunk_positive_overlap_never_returns [of "''ab''" 1 2] by simp

text \<open>
  C2. The claim: an invalid configuration (chunk size \<open>\<le> 0\<close>, overlap \<open>\<ge>\<close> chunk size,
  overlap \<open>< 0\<close>) makes \<open>equalSizeChunk\<close> fail with an \<open>InvalidConfigError\<close> before any
  chunk is computed. The code checks nothing: with overlap \<open>-1\<close> it computes and returns
  chunks.
\<close>

theorem equalSizeChunk_negative_overlap_accepted:
  "equalSizeChunk ''abc'' 2 (- 1) = Some (Inr [''ab''])"
  by (simp add: equalSizeChunk_def equalSizeChunk_loop.simps slice_def Let_def)

text \<open>
  C2 as the code has it: \<open>equalSizeChunk\<close> never fails with an error, whatever the
  configuration; on the empty text it returns the empty collection for every chunk size
  and overlap; and with a negative overlap and a positive chunk size it returns the
  windows computed with these values: window \<open>i\<close> starts at \<open>i * (chunkSize - overlap)\<close>
  and is \<open>chunkSize\<close> long (shorter at the end of the text), for every \<open>i\<close> whose start
  is below the length of the text, so that \<open>- overlap\<close> characters between two windows
  are in no chunk. For \<open>("abc", 2, -1)\<close> that is the single chunk \<open>ab\<close>.
\<close>

theorem equalSizeChunk_never_rejects:
  "equalSizeChunk text csize overlap \<noteq> Some (Inl e) \<and>
   equalSizeChunk [] csize overlap = Some (Inr []) \<and>
   (0 < csize \<and> overlap < 0 \<longrightarrow>
      equalSizeChunk text csize overlap =
        Some (Inr (map (\<lambda>i. take (nat csize) (drop (i * nat (csize - overlap)) text))
          [0..<(length text + nat (csize - overlap) - 1) div nat (csize - overlap)])))"
proof (intro conjI impI)
  show "equalSizeChunk text csize overlap \<noteq> Some (Inl e)"
    by (auto simp: equalSizeChunk_def)
  show "equalSizeChunk [] csize overlap = Some (Inr [])"
    by (simp add: equalSizeChunk_def equalSizeChunk_loop.simps)
  assume "0 < csize \<and> overlap < 0"
  then have "0 < csize" and "overlap \<le> 0" by simp_all
  from equalSizeChunk_loop_windows [OF this, of "text" "[]" 0]
  show "equalSizeChunk text csize overlap =
        Some (Inr (map (\<lambda>i. take (nat csize) (drop (i * nat (csize - overlap)) text))
          [0..<(length text + nat (csize - overlap) - 1) div nat (csize - overlap)]))"
    by (simp add: equalSizeChunk_def)
qed

theorem equalSizeChunk_never_rejects_witness:
  "(0::int) < 2 \<and> (- 1::int) < 0 \<and> equalSizeChunk ''abc'' 2 (- 1) = Some (Inr [''ab''])"
  using equalSizeChunk_never_rejects [of "''abc''" 2 "- 1"] by simp

text \<open>
  C3. The claim: \<open>equalSizeChunk("abcdefghij", 4, 1)\<close> returns the four chunks
  \<open>abcd\<close>, \<open>defg\<close>, \<open>ghij\<close>, \<open>j\<close>. The code: the call never returns; after the
  window at \<open>9\<close> the next start is \<open>10 - 1 = 9\<close> again.
\<close>

theorem equalSizeChunk_scenario_1_never_returns:
  "equalSizeChunk ''abcdefghij'' 4 1 = None"
  by (simp add: equalSizeChunk_def equalSizeChunk_loop_diverges)

section \<open>sentenceChunk and the defaults\<close>

text \<open>
  C4. The claim: every chunk of \<open>sentenceChunk\<close> is at most \<open>chunkSize\<close> long unless it
  is one sentence that is longer by itself, and \<open>sentenceChunk("A. B. C.", {chunkSize: 4})\<close>
  returns \<open>A.\<close>, \<open>B.\<close>, \<open>C.\<close>. The code compares the length of
  \<open>currentChunk + sentence\<close>, without the space it then inserts: the call returns the
  two chunks \<open>A. B.\<close> and \<open>C.\<close>, the first of two sentences and five characters.
\<close>

theorem sentenceChunk_scenario_2:
  "sentenceChunk this ''A. B. C.'' \<lparr>chunkSize = Some 4, chunkOverlap = ov, separators = seps\<rparr>
     = Inr [''A. B.'', ''C.'']"
  by (simp add: sentenceChunk_def split_sentences_def sentenceChunk_step_def or_number_def
      is_whitespace_def is_terminal_def trim_def Let_def)

text \<open>A supplied value other than \<open>0\<close> is used, and a field left out falls back to the default.\<close>

lemma or_number_supplied: "v \<noteq> 0 \<Longrightarrow> or_number (Some v) d = v"
  by (simp add: or_number_def)

lemma or_number_unspecified: "or_number None d = d"
  by (simp add: or_number_def)

text \<open>
  C8. The claim: every field that the caller supplies is used, a supplied \<open>0\<close> too, such
  as \<open>chunkOverlap: 0\<close> per call or at construction. The code reads every field through
  \<open>||\<close>, for which \<open>0\<close> is as good as absent: a facade constructed with
  \<open>chunkOverlap: 0\<close> has the default overlap \<open>200\<close>, a call with \<open>chunkOverlap: 0\<close>
  gets the overlap of the instance, and \<open>sentenceChunk\<close> with \<open>chunkSize: 0\<close> works with
  the chunk size of the instance.
\<close>

theorem supplied_zero_is_replaced:
  "defaultChunkOverlap (Chunker \<lparr>chunkSize = None, chunkOverlap = Some 0, separators = None\<rparr>) = 200 \<and>
   cfg_chunkOverlap (recursiveCharacterChunk_config this
       \<lparr>chunkSize = None, chunkOverlap = Some 0, separators = None\<rparr>) = defaultChunkOverlap this \<and>
   sentenceChunk (Chunker no_options) ''A. B.''
       \<lparr>chunkSize = Some 0, chunkOverlap = None, separators = None\<rparr> = Inr [''A. B.'']"
  by (simp add: Chunker_def recursiveCharacterChunk_config_def no_options_def
      sentenceChunk_def split_sentences_def sentenceChunk_step_def or_number_def
      is_whitespace_def is_terminal_def trim_def Let_def)

text \<open>
  C9. \<open>sentenceChunk\<close> applied to the empty string returns the empty chunk collection,
  for every instance and every per-call configuration.
\<close>

theorem sentenceChunk_empty:
  "sentenceChunk this [] opts = Inr []"
  by (simp add: sentenceChunk_def split_sentences_def sentenceChunk_step_def Let_def)

section \<open>getChunkStats\<close>










text \<open>
  C5. The claim: \<open>getChunkStats\<close> applied to an empty chunk collection fails with an
  \<open>EmptyInputError\<close> and returns no statistics record. The code has no such check and
  returns a record (here on an engine that takes 65535 arguments; the next theorem has
  every bound).
\<close>

theorem getChunkStats_empty_no_error:
  "getChunkStats 65535 [] \<noteq> Inl EmptyInputError"
  by (simp add: getChunkStats_def Math_min_def Math_max_def)

text \<open>
  C5 as the code has it: for the empty collection \<open>getChunkStats\<close> returns the record
  with no chunks and no characters, the average \<open>NaN\<close> (from \<open>0 / 0\<close>), the minimum
  \<open>Infinity\<close> and the maximum \<open>-Infinity\<close>.
\<close>

theorem getChunkStats_empty:
  "getChunkStats maxArguments [] =
     Inr \<lparr>statistics.totalChunks = 0, totalCharacters = 0, averageChunkSize = NaN,
          minChunkSize = PosInfinity, maxChunkSize = NegInfinity, chunkSizes = []\<rparr>"
  by (simp add: getChunkStats_def Math_min_def Math_max_def round_quotient_def)



section \<open>validateChunks\<close>

lemma oversized_indices_from:
  "filter (\<lambda>index. index \<noteq> - 1)
     (map (\<lambda>(index, chunk). if p chunk then int index else - 1) (enumerate n xs))
   = map int (filter (\<lambda>i. p (xs ! (i - n))) [n..<n + length xs])"
proof (induction xs arbitrary: n)
  case Nil
  then show ?case by simp
next
  case (Cons x xs)
  have shift: "filter (\<lambda>i. p ((x # xs) ! (i - n))) [Suc n..<Suc n + length xs]
      = filter (\<lambda>i. p (xs ! (i - Suc n))) [Suc n..<Suc n + length xs]"
  proof (rule filter_cong [OF refl])
    fix i
    assume "i \<in> set [Suc n..<Suc n + length xs]"
    then have "i - n = Suc (i - Suc n)" by auto
    then show "p ((x # xs) ! (i - n)) = p (xs ! (i - Suc n))" by simp
  qed
  have "[n..<n + length (x # xs)] = n # [Suc n..<n + length (x # xs)]"
    by (rule upt_conv_Cons) simp
  then have "[n..<n + length (x # xs)] = n # [Suc n..<Suc n + length xs]"
    by simp
  with Cons [of "Suc n"] shift show ?case by simp
qed

lemma oversized_indices:
  "filter (\<lambda>index. index \<noteq> - 1)
     (map (\<lambda>(index, chunk). if p chunk then int index else - 1) (enumerate 0 xs))
   = map int (filter (\<lambda>i. p (xs ! i)) [0..<length xs])"
  using oversized_indices_from [of p 0 xs] by simp

text \<open>
  C6. For every chunk collection and every bound \<open>maxSize\<close>, \<open>validateChunks\<close> reports
  \<open>totalChunks\<close> = the length of the collection, \<open>validChunks\<close> = the number of chunks of
  length \<open>\<le> maxSize\<close>, \<open>oversizedChunks\<close> = the number of chunks of length \<open>> maxSize\<close>
  (the two add up to \<open>totalChunks\<close>), \<open>oversizedIndices\<close> = the positions, counted from
  \<open>0\<close> and in ascending order, of the chunks of length \<open>> maxSize\<close>, and \<open>isValid\<close> is true
  iff \<open>oversizedChunks = 0\<close>; and \<open>validateChunks(["ab","abcdef"], 3)\<close> is the record of
  scenario 3.
\<close>

theorem validateChunks_report:
  "\<exists>r. validateChunks chunks maxSize = Inr r \<and>
     validation.totalChunks r = int (length chunks) \<and>
     validChunks r = int (card {i. i < length chunks \<and> int (length (chunks ! i)) \<le> maxSize}) \<and>
     oversizedChunks r = int (card {i. i < length chunks \<and> int (length (chunks ! i)) > maxSize}) \<and>
     validChunks r + oversizedChunks r = validation.totalChunks r \<and>
     oversizedIndices r =
       map int (filter (\<lambda>i. int (length (chunks ! i)) > maxSize) [0..<length chunks]) \<and>
     isValid r = (oversizedChunks r = 0) \<and>
     validateChunks [''ab'', ''abcdef''] 3 =
       Inr \<lparr>isValid = False, totalChunks = 2, validChunks = 1, oversizedChunks = 1,
            oversizedIndices = [1]\<rparr>"
proof -
  have split: "length (filter (\<lambda>chunk. int (length chunk) \<le> maxSize) chunks)
      + length (filter (\<lambda>chunk. int (length chunk) > maxSize) chunks) = length chunks"
    using sum_length_filter_compl [of "\<lambda>chunk. int (length chunk) \<le> maxSize" chunks]
    by (simp add: not_le)
  have scenario: "validateChunks [''ab'', ''abcdef''] 3 =
       Inr \<lparr>isValid = False, totalChunks = 2, validChunks = 1, oversizedChunks = 1,
            oversizedIndices = [1]\<rparr>"
    by (simp add: validateChunks_def enumerate_eq_zip)
  let ?over = "filter (\<lambda>chunk. int (length chunk) > maxSize) chunks"
  let ?valid = "filter (\<lambda>chunk. int (length chunk) \<le> maxSize) chunks"
  let ?r = "\<lparr>isValid = (length ?over = 0), totalChunks = int (length chunks),
      validChunks = int (length ?valid), oversizedChunks = int (length ?over),
      oversizedIndices =
        map int (filter (\<lambda>i. int (length (chunks ! i)) > maxSize) [0..<length chunks])\<rparr>"
  have r: "validateChunks chunks maxSize = Inr ?r"
    by (simp add: validateChunks_def Let_def oversized_indices)
  have valid: "validChunks ?r
      = int (card {i. i < length chunks \<and> int (length (chunks ! i)) \<le> maxSize})"
    by (simp add: length_filter_conv_card)
  have oversized: "oversizedChunks ?r
      = int (card {i. i < length chunks \<and> int (length (chunks ! i)) > maxSize})"
    by (simp add: length_filter_conv_card)
  have total: "validChunks ?r + oversizedChunks ?r = validation.totalChunks ?r"
    using split by simp
  have indices: "oversizedIndices ?r =
      map int (filter (\<lambda>i. int (length (chunks ! i)) > maxSize) [0..<length chunks])"
    by simp
  have valid_iff: "isValid ?r = (oversizedChunks ?r = 0)"
    by simp
  have len: "validation.totalChunks ?r = int (length chunks)"
    by simp
  show ?thesis
    by (intro exI [of _ ?r] conjI) (fact r len valid oversized total indices valid_iff scenario)+
qed

section \<open>validateChunks leaves its input alone\<close>

text \<open>What a call of \<open>validateChunks\<close> on a valid reference returns and what it allocates.\<close>

lemma validateChunks_store_eq:
  assumes "chunks < length h"
  shows "validateChunks_store h chunks maxSize =
    (let xs = h ! chunks;
         oversized = filter (\<lambda>chunk. length_gt chunk maxSize) xs;
         valid = filter (\<lambda>chunk. length_le chunk maxSize) xs;
         mapped = map (\<lambda>(index, chunk).
                    if length_gt chunk maxSize then Num (int index) else Num (- 1))
                    (enumerate 0 xs);
         indices = filter (\<lambda>index. index \<noteq> Num (- 1)) mapped
     in (Inr \<lparr>isValid = (length oversized = 0), totalChunks = int (length xs),
               validChunks = int (length valid), oversizedChunks = int (length oversized),
               oversizedIndices = numbers indices\<rparr>,
         h @ [oversized, valid, mapped, indices]))"
  using assms
  by (simp add: validateChunks_store_def Array_filter_def Array_map_def alloc_def array_at_def
      Let_def nth_append)

lemma numbers_indices:
  "numbers (filter (\<lambda>index. index \<noteq> Num (- 1))
      (map (\<lambda>(index, chunk). if length_gt chunk maxSize then Num (int index) else Num (- 1))
         (enumerate n (map Str cs))))
   = filter (\<lambda>index. index \<noteq> - 1)
      (map (\<lambda>(index, chunk). if int (length chunk) > maxSize then int index else - 1)
         (enumerate n cs))"
  by (induction cs arbitrary: n) (simp_all add: numbers_def length_gt_def)

text \<open>On an array of strings the call on the store returns what \<open>validateChunks\<close> returns.\<close>

lemma validateChunks_store_refines:
  assumes "chunks < length h" and "h ! chunks = map Str cs"
  shows "fst (validateChunks_store h chunks maxSize) = validateChunks cs maxSize"
proof -
  have over: "filter (\<lambda>chunk. length_gt chunk maxSize) (map Str cs)
      = map Str (filter (\<lambda>chunk. int (length chunk) > maxSize) cs)"
    by (induction cs) (simp_all add: length_gt_def)
  have valid: "filter (\<lambda>chunk. length_le chunk maxSize) (map Str cs)
      = map Str (filter (\<lambda>chunk. int (length chunk) \<le> maxSize) cs)"
    by (induction cs) (simp_all add: length_le_def)
  show ?thesis
    using assms
    by (simp add: validateChunks_store_eq validateChunks_def Let_def over valid numbers_indices)
qed

text \<open>
  C10. \<open>validateChunks\<close> is idempotent and pure: for every store, every array in it and
  every bound, the call changes no array that was in the store (so not its input), and
  running it a second time, on the store that the first call left, yields the same result.
\<close>

theorem validateChunks_idempotent_pure:
  assumes "chunks < length h"
  shows "take (length h) (snd (validateChunks_store h chunks maxSize)) = h \<and>
    array_at (snd (validateChunks_store h chunks maxSize)) chunks = array_at h chunks \<and>
    fst (validateChunks_store (snd (validateChunks_store h chunks maxSize)) chunks maxSize)
      = fst (validateChunks_store h chunks maxSize)"
proof -
  let ?h' = "snd (validateChunks_store h chunks maxSize)"
  obtain new where h': "?h' = h @ new"
    using assms by (simp add: validateChunks_store_eq Let_def)
  then have valid_ref: "chunks < length ?h'" and same: "?h' ! chunks = h ! chunks"
    using assms by (simp_all add: nth_append)
  have "chunks < length (h @ new)"
    using assms by simp
  then have "fst (validateChunks_store (h @ new) chunks maxSize)
      = fst (validateChunks_store h chunks maxSize)"
    using assms
    by (simp add: validateChunks_store_eq [of chunks "h @ new"]
        validateChunks_store_eq [of chunks h] Let_def nth_append)
  then have again: "fst (validateChunks_store ?h' chunks maxSize)
      = fst (validateChunks_store h chunks maxSize)"
    by (simp only: h')
  have "take (length h) ?h' = h"
    by (simp add: h')
  moreover have "array_at ?h' chunks = array_at h chunks"
    using valid_ref same assms by (simp only: array_at_def if_True)
  ultimately show ?thesis
    using again by (intro conjI)
qed

theorem validateChunks_idempotent_pure_witness:
  "(0::nat) < length [[Str ''ab'', Str ''abcdef'']] \<and>
   validateChunks_store [[Str ''ab'', Str ''abcdef'']] 0 3 =
     (Inr \<lparr>isValid = False, totalChunks = 2, validChunks = 1, oversizedChunks = 1,
           oversizedIndices = [1]\<rparr>,
      [[Str ''ab'', Str ''abcdef''], [Str ''abcdef''], [Str ''ab''], [Num (- 1), Num 1], [Num 1]]) \<and>
   array_at (snd (validateChunks_store [[Str ''ab'', Str ''abcdef'']] 0 3)) 0
     = [Str ''ab'', Str ''abcdef''] \<and>
   fst (validateChunks_store (snd (validateChunks_store [[Str ''ab'', Str ''abcdef'']] 0 3)) 0 3)
     = fst (validateChunks_store [[Str ''ab'', Str ''abcdef'']] 0 3)"
  using validateChunks_idempotent_pure [of 0 "[[Str ''ab'', Str ''abcdef'']]" 3]
  by (simp add: validateChunks_store_def Array_filter_def Array_map_def alloc_def array_at_def
      length_gt_def length_le_def numbers_def enumerate_eq_zip)

end
